theory Spec2Isabelle
  imports Main
begin

section \<open>The Python runtime the script relies on\<close>

text \<open>
  The script \<^verbatim>\<open>validate_toml.py\<close> is nine lines: it opens one fixed file for reading,
  hands the file object to \<^verbatim>\<open>tomllib.load\<close>, prints a success line, and prints an error
  line when an exception of class \<^verbatim>\<open>Exception\<close> was raised on the way.  What it does is
  decided by Python's exceptions, by the builtin \<^verbatim>\<open>open\<close>, by file objects, by
  \<^verbatim>\<open>print\<close> and by \<^verbatim>\<open>tomllib\<close>.  They are modelled first, the script after them.
\<close>

subsection \<open>Exceptions\<close>

text \<open>
  The exception classes that can reach the script, with Python's method resolution order
  (\<^verbatim>\<open>type(e).__mro__\<close> without \<^verbatim>\<open>object\<close>).  \<^verbatim>\<open>except C\<close> catches \<open>e\<close> when
  \<^verbatim>\<open>isinstance(e, C)\<close>, that is when \<open>C\<close> is in the order of the class of \<open>e\<close>.
\<close>

datatype exc_class =
    BaseException | Exception
  | OSError | FileNotFoundError | PermissionError | IsADirectoryError | NotADirectoryError
  | ValueError | UnicodeError | UnicodeDecodeError | UnicodeEncodeError | TOMLDecodeError
  | RuntimeError | RecursionError | MemoryError
  | KeyboardInterrupt | SystemExit | GeneratorExit

fun mro :: "exc_class \<Rightarrow> exc_class list" where
  "mro BaseException = [BaseException]"
| "mro Exception = [Exception, BaseException]"
| "mro OSError = [OSError, Exception, BaseException]"
| "mro FileNotFoundError = [FileNotFoundError, OSError, Exception, BaseException]"
| "mro PermissionError = [PermissionError, OSError, Exception, BaseException]"
| "mro IsADirectoryError = [IsADirectoryError, OSError, Exception, BaseException]"
| "mro NotADirectoryError = [NotADirectoryError, OSError, Exception, BaseException]"
| "mro ValueError = [ValueError, Exception, BaseException]"
| "mro UnicodeError = [UnicodeError, ValueError, Exception, BaseException]"
| "mro UnicodeDecodeError =
     [UnicodeDecodeError, UnicodeError, ValueError, Exception, BaseException]"
| "mro UnicodeEncodeError =
     [UnicodeEncodeError, UnicodeError, ValueError, Exception, BaseException]"
| "mro TOMLDecodeError = [TOMLDecodeError, ValueError, Exception, BaseException]"
| "mro RuntimeError = [RuntimeError, Exception, BaseException]"
| "mro RecursionError = [RecursionError, RuntimeError, Exception, BaseException]"
| "mro MemoryError = [MemoryError, Exception, BaseException]"
| "mro KeyboardInterrupt = [KeyboardInterrupt, BaseException]"
| "mro SystemExit = [SystemExit, BaseException]"
| "mro GeneratorExit = [GeneratorExit, BaseException]"

text \<open>
  An exception object: its class and \<^verbatim>\<open>str(e)\<close>, the text an f-string inserts.  Text
  is held as its UTF-8 bytes: a character beyond ASCII is the bytes from 128 on that
  encode it.
\<close>

datatype exn = Exn (exc_class: exc_class) (exc_str: string)

definition isinstance :: "exn \<Rightarrow> exc_class \<Rightarrow> bool" where
  "isinstance e c \<longleftrightarrow> c \<in> set (mro (exc_class e))"

subsection \<open>Formatting numbers and strings\<close>

definition digit_char :: "nat \<Rightarrow> char" where
  "digit_char d = ''0123456789abcdef'' ! d"

text \<open>\<^verbatim>\<open>str(n)\<close> of a non-negative integer.\<close>

function str_of_nat :: "nat \<Rightarrow> string" where
  "str_of_nat n =
     (if n < 10 then [digit_char n] else str_of_nat (n div 10) @ [digit_char (n mod 10)])"
  by pat_completeness auto
termination
  by (relation "measure id") auto

declare str_of_nat.simps [simp del]

text \<open>\<^verbatim>\<open>"%02x" % b\<close> of a byte.\<close>

definition hex2 :: "nat \<Rightarrow> string" where
  "hex2 b = [digit_char (b div 16 mod 16), digit_char (b mod 16)]"

text \<open>
  \<^verbatim>\<open>repr(s)\<close> of a string of ASCII characters: single quotes unless the string has a
  single quote and no double quote; backslash and the chosen quote are escaped, tab, line
  feed and carriage return have their short escapes, every other control character is
  written \<^verbatim>\<open>\xNN\<close>.  (Characters beyond ASCII are not passed to it here.)
\<close>

definition repr_char :: "char \<Rightarrow> char \<Rightarrow> string" where
  "repr_char q c =
     (if c = CHR 0x5C then [CHR 0x5C, CHR 0x5C]
      else if c = q then [CHR 0x5C, q]
      else if c = CHR 0x09 then [CHR 0x5C, CHR ''t'']
      else if c = CHR 0x0A then [CHR 0x5C, CHR ''n'']
      else if c = CHR 0x0D then [CHR 0x5C, CHR ''r'']
      else if (of_char c :: nat) < 32 \<or> (of_char c :: nat) = 127
        then [CHR 0x5C, CHR ''x''] @ hex2 (of_char c)
      else [c])"

definition repr_str :: "string \<Rightarrow> string" where
  "repr_str s =
     (let q = (if CHR 0x27 \<in> set s \<and> CHR 0x22 \<notin> set s
               then CHR 0x22 else CHR 0x27)
      in [q] @ concat (map (repr_char q) s) @ [q])"

subsection \<open>Files, file objects and standard output\<close>

text \<open>
  What the file system holds at a path, relative to the working directory: a regular file
  with its bytes, its modification time and whether the process may open it for reading;
  a regular file that opens but whose data the device fails to deliver, with its
  modification time; or a directory, with whether the process may search it.  Nothing
  exists at a path bound to nothing.
\<close>

datatype entry =
    RegularFile (content: string) (mtime: nat) (readable: bool)
  | FaultyFile nat
  | Directory (searchable: bool)

text \<open>A file object made by \<^verbatim>\<open>open\<close>: where it reads, how far it has read, whether it is closed.\<close>

record file_object =
  fo_path :: string
  fo_pos :: nat
  fo_closed :: bool

text \<open>
  The state a run works on: the file system; the file objects the process has created
  (a file object is its index in the list); the texts written to standard output, one
  per \<^verbatim>\<open>print\<close> call (\<^verbatim>\<open>print\<close> ends each with a line feed); and the encoding of
  standard output, which answers a text it cannot represent with the \<^verbatim>\<open>str\<close> of the
  \<^verbatim>\<open>UnicodeEncodeError\<close> it raises.  Everything else a process could touch (environment
  variables, sockets, other files' metadata) is the record's extension, which no
  operation below reads or writes.
\<close>

record state =
  fs :: "string \<rightharpoonup> entry"
  files :: "file_object list"
  stdout :: "string list"
  stdout_encoding :: "string \<Rightarrow> string option"

text \<open>\<^verbatim>\<open>str(e)\<close> of an \<^verbatim>\<open>OSError(errno, strerror, filename)\<close>.\<close>

definition os_error_str :: "nat \<Rightarrow> string \<Rightarrow> string \<Rightarrow> string" where
  "os_error_str errno strerror filename =
     ''[Errno '' @ str_of_nat errno @ ''] '' @ strerror @ '': '' @ repr_str filename"

text \<open>
  The directories a relative path goes through: for \<^verbatim>\<open>a/b/c\<close> they are \<^verbatim>\<open>a\<close> and
  \<^verbatim>\<open>a/b\<close>.
\<close>

fun dir_prefixes :: "string \<Rightarrow> string \<Rightarrow> string list" where
  "dir_prefixes seen [] = []"
| "dir_prefixes seen (c # cs) =
     (if c = CHR ''/'' then seen # dir_prefixes (seen @ [c]) cs
      else dir_prefixes (seen @ [c]) cs)"

text \<open>
  What stands in the way of a path at which nothing exists: the first place on the way
  that is not a directory the process may search holds a file, a directory that may not
  be searched, or nothing.  When every directory on the way is there and may be
  searched, only the last name is missing.
\<close>

definition obstacle :: "(string \<rightharpoonup> entry) \<Rightarrow> string \<Rightarrow> entry option" where
  "obstacle f path =
     (case List.find (\<lambda>p. f p \<noteq> Some (Directory True)) (dir_prefixes [] path) of
        None \<Rightarrow> None
      | Some p \<Rightarrow> f p)"

text \<open>
  The \<^verbatim>\<open>OSError\<close> of \<^verbatim>\<open>open\<close> for a path at which nothing exists:
  \<^verbatim>\<open>PermissionError\<close> (\<^verbatim>\<open>EACCES\<close>) behind a directory that may not be searched,
  \<^verbatim>\<open>NotADirectoryError\<close> (\<^verbatim>\<open>ENOTDIR\<close>) behind a file, and \<^verbatim>\<open>FileNotFoundError\<close>
  (\<^verbatim>\<open>ENOENT\<close>) otherwise.
\<close>

definition missing_error :: "(string \<rightharpoonup> entry) \<Rightarrow> string \<Rightarrow> exn" where
  "missing_error f path =
     (case obstacle f path of
        None \<Rightarrow> Exn FileNotFoundError (os_error_str 2 ''No such file or directory'' path)
      | Some (Directory b) \<Rightarrow> Exn PermissionError (os_error_str 13 ''Permission denied'' path)
      | Some (FaultyFile m) \<Rightarrow> Exn NotADirectoryError (os_error_str 20 ''Not a directory'' path)
      | Some (RegularFile c m r) \<Rightarrow>
          Exn NotADirectoryError (os_error_str 20 ''Not a directory'' path))"

text \<open>
  \<^verbatim>\<open>open(path, "rb")\<close>.  Mode \<^verbatim>\<open>"rb"\<close> opens an existing file for reading: it neither
  creates nor truncates nor touches the file.  It raises the error above for a path at
  which nothing exists, \<^verbatim>\<open>IsADirectoryError\<close> for a directory and \<^verbatim>\<open>PermissionError\<close>
  for a file the process may not open for reading; otherwise it returns a new file
  object.
\<close>

definition open_rb :: "'a state_scheme \<Rightarrow> string \<Rightarrow> (exn + nat) \<times> 'a state_scheme" where
  "open_rb s path =
     (case fs s path of
        None \<Rightarrow> (Inl (missing_error (fs s) path), s)
      | Some (Directory b) \<Rightarrow>
          (Inl (Exn IsADirectoryError (os_error_str 21 ''Is a directory'' path)), s)
      | Some (FaultyFile m) \<Rightarrow>
          (Inr (length (files s)),
           s\<lparr>files := files s @ [\<lparr>fo_path = path, fo_pos = 0, fo_closed = False\<rparr>]\<rparr>)
      | Some (RegularFile c m r) \<Rightarrow>
          if r then
            (Inr (length (files s)),
             s\<lparr>files := files s @ [\<lparr>fo_path = path, fo_pos = 0, fo_closed = False\<rparr>]\<rparr>)
          else
            (Inl (Exn PermissionError (os_error_str 13 ''Permission denied'' path)), s))"

text \<open>
  \<^verbatim>\<open>fp.read()\<close>: the bytes from the file object's position to the end of the file; the
  position moves to the end.  It raises \<^verbatim>\<open>OSError\<close> when the device fails to deliver
  the data, and \<^verbatim>\<open>ValueError\<close> on a closed file object.
\<close>

definition file_read :: "'a state_scheme \<Rightarrow> nat \<Rightarrow> (exn + string) \<times> 'a state_scheme" where
  "file_read s f =
     (if f < length (files s) \<and> \<not> fo_closed (files s ! f) then
        (case fs s (fo_path (files s ! f)) of
           Some (RegularFile c m r) \<Rightarrow>
             (Inr (drop (fo_pos (files s ! f)) c),
              s\<lparr>files := (files s)[f := (files s ! f)\<lparr>fo_pos := length c\<rparr>]\<rparr>)
         | _ \<Rightarrow> (Inl (Exn OSError ''[Errno 5] Input/output error''), s))
      else (Inl (Exn ValueError ''read of closed file''), s))"

text \<open>
  \<^verbatim>\<open>fp.close()\<close>, which the \<^verbatim>\<open>with\<close> statement calls through \<^verbatim>\<open>__exit__\<close>; closing a
  file opened for reading is taken to succeed.
\<close>

definition file_close :: "'a state_scheme \<Rightarrow> nat \<Rightarrow> 'a state_scheme" where
  "file_close s f =
     (if f < length (files s)
      then s\<lparr>files := (files s)[f := (files s ! f)\<lparr>fo_closed := True\<rparr>]\<rparr>
      else s)"

text \<open>
  \<^verbatim>\<open>print(text)\<close> encodes the text for standard output and writes it, one more line.
  Every encoding of standard output represents ASCII; a text beyond ASCII that the
  encoding cannot represent raises \<^verbatim>\<open>UnicodeEncodeError\<close>, and nothing is written.  The
  device behind standard output is taken to accept what is written.
\<close>

definition is_ascii :: "string \<Rightarrow> bool" where
  "is_ascii t = list_all (\<lambda>c. (of_char c :: nat) < 128) t"

definition can_print :: "'a state_scheme \<Rightarrow> string \<Rightarrow> bool" where
  "can_print s t \<longleftrightarrow> is_ascii t \<or> stdout_encoding s t = None"

definition print :: "string \<Rightarrow> 'a state_scheme \<Rightarrow> (exn + unit) \<times> 'a state_scheme" where
  "print t s =
     (if is_ascii t then (Inr (), s\<lparr>stdout := stdout s @ [t]\<rparr>)
      else
        (case stdout_encoding s t of
           None \<Rightarrow> (Inr (), s\<lparr>stdout := stdout s @ [t]\<rparr>)
         | Some msg \<Rightarrow> (Inl (Exn UnicodeEncodeError msg), s)))"

subsection \<open>Decoding bytes as UTF-8\<close>

text \<open>
  \<^verbatim>\<open>b.decode()\<close>: strict UTF-8, as CPython's decoder reads it.  A lead byte announces one
  to four bytes; overlong forms, surrogates and values beyond U+10FFFF are refused at the
  second byte.  The first offence raises \<^verbatim>\<open>UnicodeDecodeError\<close>, whose \<^verbatim>\<open>str\<close> names the
  byte (or the range of bytes), its position and the reason.
\<close>

definition is_continuation_byte :: "nat \<Rightarrow> bool" where
  "is_continuation_byte b \<longleftrightarrow> 0x80 \<le> b \<and> b < 0xC0"

definition unicode_decode_error :: "nat \<Rightarrow> nat \<Rightarrow> nat \<Rightarrow> string \<Rightarrow> exn" where
  "unicode_decode_error byte start end reason =
     Exn UnicodeDecodeError
       ([CHR 0x27] @ ''utf-8'' @ [CHR 0x27] @ '' codec can'' @ [CHR 0x27] @ ''t decode '' @
        (if end = start + 1
         then ''byte 0x'' @ hex2 byte @ '' in position '' @ str_of_nat start
         else ''bytes in position '' @ str_of_nat start @ ''-'' @ str_of_nat (end - 1)) @
        '': '' @ reason)"

definition emit :: "nat \<Rightarrow> exn + nat list \<Rightarrow> exn + nat list" where
  "emit cp r = (case r of Inl e \<Rightarrow> Inl e | Inr cps \<Rightarrow> Inr (cp # cps))"

text \<open>
  \<open>utf8_decode i bs\<close> decodes the bytes \<open>bs\<close> that start at position \<open>i\<close> of the input.
\<close>

fun utf8_decode :: "nat \<Rightarrow> nat list \<Rightarrow> exn + nat list" where
  "utf8_decode i [] = Inr []"
| "utf8_decode i (ch # bs) =
     (if ch < 0x80 then emit ch (utf8_decode (i + 1) bs)
      else if ch < 0xE0 then
        (if ch < 0xC2 then Inl (unicode_decode_error ch i (i + 1) ''invalid start byte'')
         else case bs of
           [] \<Rightarrow> Inl (unicode_decode_error ch i (i + 1) ''unexpected end of data'')
         | c2 # r2 \<Rightarrow>
             if \<not> is_continuation_byte c2
             then Inl (unicode_decode_error ch i (i + 1) ''invalid continuation byte'')
             else emit (ch mod 32 * 64 + c2 mod 64) (utf8_decode (i + 2) r2))
      else if ch < 0xF0 then
        (case bs of
           [] \<Rightarrow> Inl (unicode_decode_error ch i (i + 1) ''unexpected end of data'')
         | [c2] \<Rightarrow>
             if \<not> is_continuation_byte c2 \<or> (if c2 < 0xA0 then ch = 0xE0 else ch = 0xED)
             then Inl (unicode_decode_error ch i (i + 1) ''invalid continuation byte'')
             else Inl (unicode_decode_error ch i (i + 2) ''unexpected end of data'')
         | c2 # c3 # r3 \<Rightarrow>
             if \<not> is_continuation_byte c2
             then Inl (unicode_decode_error ch i (i + 1) ''invalid continuation byte'')
             else if ch = 0xE0 \<and> c2 < 0xA0
             then Inl (unicode_decode_error ch i (i + 1) ''invalid continuation byte'')
             else if ch = 0xED \<and> 0xA0 \<le> c2
             then Inl (unicode_decode_error ch i (i + 1) ''invalid continuation byte'')
             else if \<not> is_continuation_byte c3
             then Inl (unicode_decode_error ch i (i + 2) ''invalid continuation byte'')
             else emit (ch mod 16 * 4096 + c2 mod 64 * 64 + c3 mod 64)
                    (utf8_decode (i + 3) r3))
      else if ch < 0xF5 then
        (case bs of
           [] \<Rightarrow> Inl (unicode_decode_error ch i (i + 1) ''unexpected end of data'')
         | [c2] \<Rightarrow>
             if \<not> is_continuation_byte c2 \<or> (if c2 < 0x90 then ch = 0xF0 else ch = 0xF4)
             then Inl (unicode_decode_error ch i (i + 1) ''invalid continuation byte'')
             else Inl (unicode_decode_error ch i (i + 2) ''unexpected end of data'')
         | [c2, c3] \<Rightarrow>
             if \<not> is_continuation_byte c2 \<or> (if c2 < 0x90 then ch = 0xF0 else ch = 0xF4)
             then Inl (unicode_decode_error ch i (i + 1) ''invalid continuation byte'')
             else if \<not> is_continuation_byte c3
             then Inl (unicode_decode_error ch i (i + 2) ''invalid continuation byte'')
             else Inl (unicode_decode_error ch i (i + 3) ''unexpected end of data'')
         | c2 # c3 # c4 # r4 \<Rightarrow>
             if \<not> is_continuation_byte c2
             then Inl (unicode_decode_error ch i (i + 1) ''invalid continuation byte'')
             else if ch = 0xF0 \<and> c2 < 0x90
             then Inl (unicode_decode_error ch i (i + 1) ''invalid continuation byte'')
             else if ch = 0xF4 \<and> 0x90 \<le> c2
             then Inl (unicode_decode_error ch i (i + 1) ''invalid continuation byte'')
             else if \<not> is_continuation_byte c3
             then Inl (unicode_decode_error ch i (i + 2) ''invalid continuation byte'')
             else if \<not> is_continuation_byte c4
             then Inl (unicode_decode_error ch i (i + 3) ''invalid continuation byte'')
             else emit (ch mod 8 * 262144 + c2 mod 64 * 4096 + c3 mod 64 * 64 + c4 mod 64)
                    (utf8_decode (i + 4) r4))
      else Inl (unicode_decode_error ch i (i + 1) ''invalid start byte''))"

definition bytes_decode :: "string \<Rightarrow> exn + nat list" where
  "bytes_decode b = utf8_decode 0 (map of_char b)"

subsection \<open>tomllib\<close>

text \<open>
  \<^verbatim>\<open>tomllib\<close> is Python's standard TOML reader (\<^verbatim>\<open>Lib/tomllib/_parser.py\<close> of
  CPython 3.11); \<^verbatim>\<open>load\<close>, \<^verbatim>\<open>loads\<close> and the helpers of its statement loop are
  modelled as written there, the rules for a single statement are parameters.  Its text
  is a \<^verbatim>\<open>str\<close>, here the list of its code points.  A parser function returns its value,
  raises \<^verbatim>\<open>suffixed_err(src, pos, msg)\<close> (a \<^verbatim>\<open>TOMLDecodeError\<close>), or is left by another
  exception raised while it runs (\<^verbatim>\<open>RecursionError\<close> on deep nesting, \<^verbatim>\<open>MemoryError\<close>,
  \<^verbatim>\<open>KeyboardInterrupt\<close> when the user interrupts).
\<close>

datatype 'a parse =
    Parsed 'a
  | SyntaxError nat string
  | Raised exn

text \<open>
  The rules for one statement work on the parser's \<^verbatim>\<open>Output\<close> and the current table
  header, both held in \<open>'st\<close>; the script throws the parsed document away, so they are
  parameters of the model.  Each rule is entered at the first character of its statement
  and consumes it: the result \<open>Parsed (n, st)\<close> stands for the returned position
  \<open>pos + 1 + n\<close>.
\<close>

record 'st rules =
  new_output :: 'st
  finalize_pending :: "'st \<Rightarrow> 'st"
  key_value_rule :: "nat list \<Rightarrow> nat \<Rightarrow> 'st \<Rightarrow> (nat \<times> 'st) parse"
  create_dict_rule :: "nat list \<Rightarrow> nat \<Rightarrow> 'st \<Rightarrow> (nat \<times> 'st) parse"
  create_list_rule :: "nat list \<Rightarrow> nat \<Rightarrow> 'st \<Rightarrow> (nat \<times> 'st) parse"

definition ASCII_CTRL :: "nat list" where
  "ASCII_CTRL = [0..<32] @ [127]"

definition ILLEGAL_COMMENT_CHARS :: "nat list" where
  "ILLEGAL_COMMENT_CHARS = filter (\<lambda>c. c \<noteq> 9) ASCII_CTRL"

definition TOML_WS :: "nat list" where
  "TOML_WS = [32, 9]"

definition BARE_KEY_CHARS :: "nat list" where
  "BARE_KEY_CHARS =
     map of_char ''abcdefghijklmnopqrstuvwxyzABCDEFGHIJKLMNOPQRSTUVWXYZ0123456789-_''"

definition KEY_INITIAL_CHARS :: "nat list" where
  "KEY_INITIAL_CHARS = BARE_KEY_CHARS @ [34, 39]"

text \<open>\<^verbatim>\<open>s.replace("\r\n", "\n")\<close>.\<close>

fun replace_crlf :: "nat list \<Rightarrow> nat list" where
  "replace_crlf [] = []"
| "replace_crlf [c] = [c]"
| "replace_crlf (c # d # cs) =
     (if c = 13 \<and> d = 10 then 10 # replace_crlf cs else c # replace_crlf (d # cs))"

function skip_chars :: "nat list \<Rightarrow> nat \<Rightarrow> nat list \<Rightarrow> nat" where
  "skip_chars src pos chars =
     (if pos < length src \<and> src ! pos \<in> set chars
      then skip_chars src (pos + 1) chars else pos)"
  by pat_completeness auto
termination
  by (relation "measure (\<lambda>(src, pos, chars). length src - pos)") auto

declare skip_chars.simps [simp del]

text \<open>
  \<^verbatim>\<open>coord_repr\<close> inside \<^verbatim>\<open>suffixed_err\<close>: the line is one more than the line feeds
  before \<open>pos\<close>, the column counts from the last of them.
\<close>

definition rindex_newline :: "nat list \<Rightarrow> nat" where
  "rindex_newline pre = length pre - 1 - length (takeWhile (\<lambda>c. c \<noteq> 10) (rev pre))"

definition coord_repr :: "nat list \<Rightarrow> nat \<Rightarrow> string" where
  "coord_repr src pos =
     (if length src \<le> pos then ''end of document''
      else
        let line = count_list (take pos src) 10 + 1;
            column = (if line = 1 then pos + 1 else pos - rindex_newline (take pos src))
        in ''line '' @ str_of_nat line @ '', column '' @ str_of_nat column)"

definition suffixed_err :: "nat list \<Rightarrow> nat \<Rightarrow> string \<Rightarrow> exn" where
  "suffixed_err src pos msg =
     Exn TOMLDecodeError (msg @ '' (at '' @ coord_repr src pos @ '')'')"

text \<open>
  \<^verbatim>\<open>skip_until\<close> for a one-character \<open>expect\<close>: the position of the next \<open>expect\<close> from
  \<open>pos\<close> (the end of the text when there is none, an error if \<open>error_on_eof\<close>), unless
  a character of \<open>error_on\<close> comes first.
\<close>

definition skip_until :: "nat list \<Rightarrow> nat \<Rightarrow> nat \<Rightarrow> nat list \<Rightarrow> bool \<Rightarrow> nat parse" where
  "skip_until src pos expect error_on error_on_eof =
     (let seg = takeWhile (\<lambda>c. c \<noteq> expect) (drop pos src);
          found = (pos + length seg < length src);
          new_pos = (if found then pos + length seg else length src)
      in if \<not> found \<and> error_on_eof
         then SyntaxError new_pos (''Expected '' @ repr_str [char_of expect])
         else if \<exists>c \<in> set seg. c \<in> set error_on
         then
           (let bad = pos + length (takeWhile (\<lambda>c. c \<notin> set error_on) seg)
            in SyntaxError bad (''Found invalid character '' @ repr_str [char_of (src ! bad)]))
         else Parsed new_pos)"

definition skip_comment :: "nat list \<Rightarrow> nat \<Rightarrow> nat parse" where
  "skip_comment src pos =
     (if pos < length src \<and> src ! pos = 35
      then skip_until src (pos + 1) 10 ILLEGAL_COMMENT_CHARS False
      else Parsed pos)"

text \<open>
  Step 2 of the loop in \<^verbatim>\<open>loads\<close>, entered at a character that is not a line feed: a
  key/value pair, a table header (\<^verbatim>\<open>[[\<close> starts an array of tables), a comment, or an
  invalid statement.  After a rule the blanks that follow are skipped.
\<close>

definition after_rule :: "nat list \<Rightarrow> nat \<Rightarrow> (nat \<times> 'st) parse \<Rightarrow> (nat \<times> 'st) parse" where
  "after_rule src pos r =
     (case r of
        Parsed (n, out) \<Rightarrow> Parsed (skip_chars src (pos + 1 + n) TOML_WS, out)
      | SyntaxError p msg \<Rightarrow> SyntaxError p msg
      | Raised e \<Rightarrow> Raised e)"

definition statement :: "('st, 'x) rules_scheme \<Rightarrow> nat list \<Rightarrow> nat \<Rightarrow> 'st \<Rightarrow> (nat \<times> 'st) parse" where
  "statement rt src pos out =
     (let char = src ! pos in
      if char \<in> set KEY_INITIAL_CHARS then after_rule src pos (key_value_rule rt src pos out)
      else if char = 91 then
        (let out1 = finalize_pending rt out in
         if pos + 1 < length src \<and> src ! (pos + 1) = 91
         then after_rule src pos (create_list_rule rt src pos out1)
         else after_rule src pos (create_dict_rule rt src pos out1))
      else if char \<noteq> 35 then SyntaxError pos ''Invalid statement''
      else Parsed (pos, out))"

text \<open>
  The loop of \<^verbatim>\<open>loads\<close>, one statement a turn: skip the blanks that lead the line; stop
  at the end of the text; pass an empty line; otherwise read one statement, skip a
  comment, and expect the end of the line or of the text.
\<close>

function statements :: "('st, 'x) rules_scheme \<Rightarrow> nat list \<Rightarrow> nat \<Rightarrow> 'st \<Rightarrow> 'st parse" where
  "statements rt src pos0 out =
     (let pos = skip_chars src pos0 TOML_WS in
      if length src \<le> pos then Parsed out
      else if src ! pos = 10 then statements rt src (pos + 1) out
      else
        (case statement rt src pos out of
           SyntaxError p msg \<Rightarrow> SyntaxError p msg
         | Raised e \<Rightarrow> Raised e
         | Parsed (pos1, out1) \<Rightarrow>
             (case skip_comment src pos1 of
                SyntaxError p msg \<Rightarrow> SyntaxError p msg
              | Raised e \<Rightarrow> Raised e
              | Parsed pos2 \<Rightarrow>
                  if length src \<le> pos2 then Parsed out1
                  else if src ! pos2 \<noteq> 10
                  then SyntaxError pos2
                         ''Expected newline or end of document after a statement''
                  else statements rt src (pos2 + 1) out1)))"
  by pat_completeness auto
termination
proof (relation "measure (\<lambda>(rt, src, pos0, out). length src - pos0)")
  have skipped: "p \<le> skip_chars xs p cs" for xs p cs
  proof (induction xs p cs rule: skip_chars.induct)
    case (1 src pos chars)
    show ?case
    proof (cases "pos < length src \<and> src ! pos \<in> set chars")
      case True
      with "1" have "pos + 1 \<le> skip_chars src (pos + 1) chars" by simp
      then show ?thesis by (subst skip_chars.simps) (simp add: True)
    next
      case False
      show ?thesis by (subst skip_chars.simps) (use False in auto)
    qed
  qed
  have ruled: "p \<le> q" if "after_rule xs p r = Parsed (q, out')"
    for xs p q and r :: "(nat \<times> 'st) parse" and out'
  proof -
    from that obtain n where "q = skip_chars xs (p + 1 + n) TOML_WS"
      by (auto simp: after_rule_def split: parse.splits)
    with skipped [of "p + 1 + n" xs TOML_WS] show ?thesis by simp
  qed
  have stated: "p \<le> q" if "statement rt xs p out = Parsed (q, out')"
    for rt :: "('st, 'x) rules_scheme" and xs p q out out'
    using that by (auto simp: statement_def Let_def split: if_splits dest: ruled)
  have commented: "p \<le> q" if "skip_comment xs p = Parsed q" for xs p q
    using that by (auto simp: skip_comment_def skip_until_def Let_def split: if_splits)
  show "wf (measure (\<lambda>(rt :: ('st, 'x) rules_scheme, src, pos0, out :: 'st). length src - pos0))"
    by simp
  show "((rt, src, pos + 1, out), (rt, src, pos0, out))
      \<in> measure (\<lambda>(rt, src, pos0, out). length src - pos0)"
    if "pos = skip_chars src pos0 TOML_WS" and "\<not> length src \<le> pos"
    for rt :: "('st, 'x) rules_scheme" and src pos0 and out :: 'st and pos
    using that skipped [of pos0 src TOML_WS] by simp
  show "((rt, src, pos2 + 1, out1), (rt, src, pos0, out))
      \<in> measure (\<lambda>(rt, src, pos0, out). length src - pos0)"
    if "pos = skip_chars src pos0 TOML_WS"
      and "statement rt src pos out = Parsed x1" and "(pos1, out1) = x1"
      and "skip_comment src pos1 = Parsed pos2" and "\<not> length src \<le> pos2"
    for rt :: "('st, 'x) rules_scheme" and src pos0 and out :: 'st and pos x1 pos1 out1 pos2
  proof -
    from that have "pos0 \<le> pos2"
      using skipped [of pos0 src TOML_WS] stated [of rt src pos out pos1 out1]
        commented [of src pos1 pos2]
      by simp
    with that(5) show ?thesis by simp
  qed
qed

declare statements.simps [simp del]

text \<open>
  \<^verbatim>\<open>loads(s)\<close>: line ends are normalised, the statements are read from position 0 with
  a fresh \<^verbatim>\<open>Output\<close>; the result is the parsed document.
\<close>

definition loads :: "('st, 'x) rules_scheme \<Rightarrow> nat list \<Rightarrow> exn + 'st" where
  "loads rt s =
     (let src = replace_crlf s in
      case statements rt src 0 (new_output rt) of
        Parsed doc \<Rightarrow> Inr doc
      | SyntaxError pos msg \<Rightarrow> Inl (suffixed_err src pos msg)
      | Raised e \<Rightarrow> Inl e)"

text \<open>
  \<^verbatim>\<open>tomllib.load(fp)\<close>: \<^verbatim>\<open>b = fp.read()\<close>, then \<^verbatim>\<open>s = b.decode()\<close> and
  \<^verbatim>\<open>return loads(s)\<close>; the last two lines, which no longer touch the file, are
  \<open>decode_document\<close>.
\<close>

definition decode_document :: "('st, 'x) rules_scheme \<Rightarrow> string \<Rightarrow> exn + 'st" where
  "decode_document rt b =
     (case bytes_decode b of
        Inl e \<Rightarrow> Inl e
      | Inr text \<Rightarrow> loads rt text)"

definition load :: "('st, 'x) rules_scheme \<Rightarrow> 'a state_scheme \<Rightarrow> nat \<Rightarrow> (exn + 'st) \<times> 'a state_scheme" where
  "load rt s fp =
     (case file_read s fp of
        (Inl e, s1) \<Rightarrow> (Inl e, s1)
      | (Inr b, s1) \<Rightarrow> (decode_document rt b, s1))"

section \<open>The script\<close>

text \<open>
  \<^verbatim>\<open>
  try:
      with open(".gemini/commands/refactor/surgical.toml", "rb") as f:
          tomllib.load(f)
      print("TOML is valid")
  except Exception as e:
      print(f"TOML error: {e}")
  \<close>
\<close>

definition toml_path :: string where
  "toml_path = ''.gemini/commands/refactor/surgical.toml''"

text \<open>
  The \<^verbatim>\<open>with\<close> statement: the file object is closed when the block is left, whether
  \<^verbatim>\<open>tomllib.load\<close> returned or raised, and an exception of the block goes on after that.
  Nothing is closed when \<^verbatim>\<open>open\<close> itself raises.
\<close>

definition with_open_load :: "('st, 'x) rules_scheme \<Rightarrow> 'a state_scheme \<Rightarrow> (exn + unit) \<times> 'a state_scheme" where
  "with_open_load rt s =
     (case open_rb s toml_path of
        (Inl e, s1) \<Rightarrow> (Inl e, s1)
      | (Inr f, s1) \<Rightarrow>
          (case load rt s1 f of
             (Inl e, s2) \<Rightarrow> (Inl e, file_close s2 f)
           | (Inr doc, s2) \<Rightarrow> (Inr (), file_close s2 f)))"

text \<open>The body of the \<^verbatim>\<open>try\<close>: the success line is printed only when nothing was raised.\<close>

definition try_body :: "('st, 'x) rules_scheme \<Rightarrow> 'a state_scheme \<Rightarrow> (exn + unit) \<times> 'a state_scheme" where
  "try_body rt s =
     (case with_open_load rt s of
        (Inl e, s1) \<Rightarrow> (Inl e, s1)
      | (Inr u, s1) \<Rightarrow> print ''TOML is valid'' s1)"

text \<open>
  How the run ends: the module ran to its last line, and the interpreter exits with
  status 0; or an exception left the module uncaught, and the interpreter ends
  abnormally (a traceback and status 1; \<^verbatim>\<open>SystemExit\<close> exits with its own code and
  \<^verbatim>\<open>KeyboardInterrupt\<close> ends the process by the interrupt signal, for which no status is
  given here).
\<close>

datatype outcome = Completed | Uncaught exn

fun exit_status :: "outcome \<Rightarrow> nat option" where
  "exit_status Completed = Some 0"
| "exit_status (Uncaught e) =
     (if exc_class e = SystemExit \<or> exc_class e = KeyboardInterrupt then None else Some 1)"

text \<open>
  The whole module.  \<^verbatim>\<open>except Exception as e\<close> handles an exception that is an instance
  of \<^verbatim>\<open>Exception\<close> by printing \<^verbatim>\<open>f"TOML error: {e}"\<close>; any other exception goes on.
  The handler's \<^verbatim>\<open>print\<close> is outside every \<^verbatim>\<open>try\<close>: what it raises leaves the module.
\<close>

definition validate_toml :: "('st, 'x) rules_scheme \<Rightarrow> 'a state_scheme \<Rightarrow> outcome \<times> 'a state_scheme" where
  "validate_toml rt s =
     (case try_body rt s of
        (Inr u, s1) \<Rightarrow> (Completed, s1)
      | (Inl e, s1) \<Rightarrow>
          if isinstance e Exception
          then
            (case print (''TOML error: '' @ exc_str e) s1 of
               (Inr u, s2) \<Rightarrow> (Completed, s2)
             | (Inl e2, s2) \<Rightarrow> (Uncaught e2, s2))
          else (Uncaught e, s1))"

section \<open>Properties\<close>

subsection \<open>Notions the properties are stated with\<close>



text \<open>The file object of the script once the \<^verbatim>\<open>with\<close> block is left: closed.\<close>

definition closed_file :: "string \<Rightarrow> file_object" where
  "closed_file c = \<lparr>fo_path = toml_path, fo_pos = length c, fo_closed = True\<rparr>"

text \<open>A new process in the same world: no file objects yet, nothing printed yet.\<close>

definition new_process :: "'a state_scheme \<Rightarrow> 'a state_scheme" where
  "new_process s = s\<lparr>files := [], stdout := []\<rparr>"

text \<open>
  Example rules.  \<open>rules_of r\<close> lets every statement rule answer \<open>r\<close>:
  \<open>to_end_of_line\<close> accepts the rest of the line; \<open>unterminated\<close> reports the error of
  \<^verbatim>\<open>key = "unterminated\<close>; \<open>duplicate_key\<close> reports the error of an inline table that
  has the key \<^verbatim>\<open>"e"\<close> with an acute accent twice, a message that holds the key;
  \<open>interrupted\<close> is a rule during which the user interrupts; \<open>out_of_memory\<close> is a
  rule during which memory runs out (\<^verbatim>\<open>str(MemoryError())\<close> is empty).
\<close>

definition rules_of :: "(nat list \<Rightarrow> nat \<Rightarrow> (nat \<times> unit) parse) \<Rightarrow> unit rules" where
  "rules_of r =
     \<lparr>new_output = (), finalize_pending = (\<lambda>out. out),
      key_value_rule = (\<lambda>src pos out. r src pos),
      create_dict_rule = (\<lambda>src pos out. r src pos),
      create_list_rule = (\<lambda>src pos out. r src pos)\<rparr>"

definition to_end_of_line :: "nat list \<Rightarrow> nat \<Rightarrow> (nat \<times> unit) parse" where
  "to_end_of_line src pos = Parsed (length (takeWhile (\<lambda>c. c \<noteq> 10) (drop (pos + 1) src)), ())"

definition unterminated :: "nat list \<Rightarrow> nat \<Rightarrow> (nat \<times> unit) parse" where
  "unterminated src pos = SyntaxError (length src) ''Unterminated string''"

definition duplicate_key :: "nat list \<Rightarrow> nat \<Rightarrow> (nat \<times> unit) parse" where
  "duplicate_key src pos =
     SyntaxError 21 (''Duplicate inline table key '' @ [CHR 0x27, CHR 0xC3, CHR 0xA9, CHR 0x27])"

definition interrupted :: "nat list \<Rightarrow> nat \<Rightarrow> (nat \<times> unit) parse" where
  "interrupted src pos = Raised (Exn KeyboardInterrupt [])"

definition out_of_memory :: "nat list \<Rightarrow> nat \<Rightarrow> (nat \<times> unit) parse" where
  "out_of_memory src pos = Raised (Exn MemoryError [])"

text \<open>The malformed document \<^verbatim>\<open>key = "unterminated\<close>.\<close>

definition unterminated_toml :: string where
  "unterminated_toml = ''key = '' @ [CHR 0x22] @ ''unterminated''"

text \<open>
  The malformed document \<^verbatim>\<open>a = {"e" = 1, "e" = 2}\<close> with an acute accent on each
  \<^verbatim>\<open>e\<close>, in UTF-8.
\<close>

definition duplicate_key_toml :: string where
  "duplicate_key_toml =
     ''a = {'' @ [CHR 0x22, CHR 0xC3, CHR 0xA9, CHR 0x22] @ '' = 1, '' @
     [CHR 0x22, CHR 0xC3, CHR 0xA9, CHR 0x22] @ '' = 2}''"


definition hex4 :: "nat \<Rightarrow> string" where
  "hex4 n = hex2 (n div 256) @ hex2 (n mod 256)"

definition escaped_char :: "nat \<Rightarrow> string" where
  "escaped_char c =
     (if c \<le> 0xFF then [CHR 0x5C, CHR ''x''] @ hex2 c
      else if c \<le> 0xFFFF then [CHR 0x5C, CHR ''u''] @ hex4 c
      else [CHR 0x5C, CHR ''U''] @ hex4 (c div 65536) @ hex4 (c mod 65536))"

definition ascii_encode_error :: "nat list \<Rightarrow> string option" where
  "ascii_encode_error cps =
     (let start = length (takeWhile (\<lambda>c. c < 128) cps);
          stop = start + length (takeWhile (\<lambda>c. 128 \<le> c) (drop start cps))
      in if start = length cps then None
         else Some
           ([CHR 0x27] @ ''ascii'' @ [CHR 0x27] @ '' codec can'' @ [CHR 0x27] @ ''t encode '' @
            (if stop = start + 1
             then ''character '' @ [CHR 0x27] @ escaped_char (cps ! start) @ [CHR 0x27] @
                  '' in position '' @ str_of_nat start
             else ''characters in position '' @ str_of_nat start @ ''-'' @
                  str_of_nat (stop - 1)) @
            '': ordinal not in range(128)''))"

definition ascii_stdout :: "string \<Rightarrow> string option" where
  "ascii_stdout t = (case bytes_decode t of Inl e \<Rightarrow> None | Inr cps \<Rightarrow> ascii_encode_error cps)"

text \<open>
  Example worlds, each with an ASCII standard output unless said otherwise: the file with
  given bytes; the same under a UTF-8 standard output; the same with a later
  modification time and one more file; no file at all; a regular file where the
  directory \<^verbatim>\<open>.gemini\<close> should be; a directory \<^verbatim>\<open>.gemini\<close> that the process may
  not search; a file whose data the device fails to deliver.
\<close>

definition world_with :: "string \<Rightarrow> state" where
  "world_with c =
     \<lparr>fs = [toml_path \<mapsto> RegularFile c 0 True], files = [], stdout = [],
      stdout_encoding = ascii_stdout\<rparr>"



definition world_without :: state where
  "world_without = \<lparr>fs = Map.empty, files = [], stdout = [], stdout_encoding = ascii_stdout\<rparr>"



definition world_faulty :: state where
  "world_faulty =
     \<lparr>fs = [toml_path \<mapsto> FaultyFile 0], files = [], stdout = [],
      stdout_encoding = ascii_stdout\<rparr>"

subsection \<open>How a run goes\<close>

lemma is_ascii_append [simp]: "is_ascii (xs @ ys) \<longleftrightarrow> is_ascii xs \<and> is_ascii ys"
  by (simp add: is_ascii_def)

lemma is_ascii_valid: "is_ascii ''TOML is valid''"
  by (simp add: is_ascii_def)

lemma is_ascii_prefix: "is_ascii ''TOML error: ''"
  by (simp add: is_ascii_def)

lemma print_can:
  "can_print s t \<Longrightarrow> print t s = (Inr (), s\<lparr>stdout := stdout s @ [t]\<rparr>)"
  by (auto simp: print_def can_print_def)

lemma print_cannot:
  "\<not> can_print s t \<Longrightarrow>
     \<exists>msg. stdout_encoding s t = Some msg \<and> print t s = (Inl (Exn UnicodeEncodeError msg), s)"
  by (auto simp: print_def can_print_def)

lemma with_open_load_readable:
  assumes "fs s toml_path = Some (RegularFile c m True)"
  shows "with_open_load rt s =
    ((case decode_document rt c of Inl e \<Rightarrow> Inl e | Inr doc \<Rightarrow> Inr ()),
     s\<lparr>files := files s @ [closed_file c]\<rparr>)"
  using assms
  by (simp add: with_open_load_def open_rb_def load_def file_read_def file_close_def
      closed_file_def nth_append split: sum.splits)

lemma with_open_load_faulty:
  assumes "fs s toml_path = Some (FaultyFile m)"
  shows "with_open_load rt s =
    (Inl (Exn OSError ''[Errno 5] Input/output error''),
     s\<lparr>files := files s @ [closed_file []]\<rparr>)"
  using assms
  by (simp add: with_open_load_def open_rb_def load_def file_read_def file_close_def
      closed_file_def nth_append)

lemma with_open_load_missing:
  assumes "fs s toml_path = None"
  shows "with_open_load rt s =
    (Inl (missing_error (fs s) toml_path), s)"
  using assms by (simp add: with_open_load_def open_rb_def)

lemma with_open_load_directory:
  assumes "fs s toml_path = Some (Directory b)"
  shows "with_open_load rt s =
    (Inl (Exn IsADirectoryError (os_error_str 21 ''Is a directory'' toml_path)), s)"
  using assms by (simp add: with_open_load_def open_rb_def)

lemma with_open_load_unreadable:
  assumes "fs s toml_path = Some (RegularFile c m False)"
  shows "with_open_load rt s =
    (Inl (Exn PermissionError (os_error_str 13 ''Permission denied'' toml_path)), s)"
  using assms by (simp add: with_open_load_def open_rb_def)

text \<open>The \<^verbatim>\<open>with\<close> block only adds closed file objects; it leaves everything else as it was.\<close>

lemma with_open_load_frame:
  "\<exists>fos. snd (with_open_load rt s) = s\<lparr>files := files s @ fos\<rparr> \<and> list_all fo_closed fos"
proof -
  have none: "\<exists>fos. s = s\<lparr>files := files s @ fos\<rparr> \<and> list_all fo_closed fos"
    by (rule exI [of _ "[]"]) simp
  have one: "\<exists>fos. s\<lparr>files := files s @ [closed_file c]\<rparr> = s\<lparr>files := files s @ fos\<rparr>
      \<and> list_all fo_closed fos" for c
    by (rule exI [of _ "[closed_file c]"]) (simp add: closed_file_def)
  show ?thesis
  proof (cases "fs s toml_path")
    case None
    with none show ?thesis by (simp add: with_open_load_missing)
  next
    case (Some en)
    show ?thesis
    proof (cases en)
      case (Directory b)
      with Some none show ?thesis by (simp add: with_open_load_directory)
    next
      case (FaultyFile m)
      with Some one [of "[]"] show ?thesis by (simp add: with_open_load_faulty)
    next
      case (RegularFile c m r)
      show ?thesis
      proof (cases r)
        case True
        with Some RegularFile have "fs s toml_path = Some (RegularFile c m True)" by simp
        with one [of c] show ?thesis by (simp add: with_open_load_readable)
      next
        case False
        with Some RegularFile have "fs s toml_path = Some (RegularFile c m False)" by simp
        with none show ?thesis by (simp add: with_open_load_unreadable)
      qed
    qed
  qed
qed

text \<open>The run, told from the outcome of the \<^verbatim>\<open>with\<close> block.\<close>

lemma try_body_by_block:
  "try_body rt s =
     (case with_open_load rt s of
        (Inr u, s1) \<Rightarrow> (Inr (), s1\<lparr>stdout := stdout s1 @ [''TOML is valid'']\<rparr>)
      | (Inl e, s1) \<Rightarrow> (Inl e, s1))"
  by (simp add: try_body_def print_def is_ascii_valid split: prod.splits sum.splits)

lemma validate_toml_by_block:
  "validate_toml rt s =
     (case with_open_load rt s of
        (Inr u, s1) \<Rightarrow> (Completed, s1\<lparr>stdout := stdout s1 @ [''TOML is valid'']\<rparr>)
      | (Inl e, s1) \<Rightarrow>
          if isinstance e Exception
          then
            (case print (''TOML error: '' @ exc_str e) s1 of
               (Inr u, s2) \<Rightarrow> (Completed, s2)
             | (Inl e2, s2) \<Rightarrow> (Uncaught e2, s2))
          else (Uncaught e, s1))"
  by (simp add: validate_toml_def try_body_by_block split: prod.splits sum.splits)

lemma run_returned:
  assumes "fst (with_open_load rt s) = Inr u"
  shows "fst (validate_toml rt s) = Completed"
    and "stdout (snd (validate_toml rt s)) = stdout s @ [''TOML is valid'']"
    and "files (snd (validate_toml rt s)) = files (snd (with_open_load rt s))"
proof -
  obtain s1 where w: "with_open_load rt s = (Inr u, s1)"
    using assms by (cases "with_open_load rt s") simp
  from with_open_load_frame [of rt s] w obtain fos where "s1 = s\<lparr>files := files s @ fos\<rparr>"
    by auto
  with w show "fst (validate_toml rt s) = Completed"
    and "stdout (snd (validate_toml rt s)) = stdout s @ [''TOML is valid'']"
    and "files (snd (validate_toml rt s)) = files (snd (with_open_load rt s))"
    by (simp_all add: validate_toml_by_block)
qed

lemma run_printed:
  assumes "fst (with_open_load rt s) = Inl e" and "isinstance e Exception"
    and "can_print s (''TOML error: '' @ exc_str e)"
  shows "fst (validate_toml rt s) = Completed"
    and "stdout (snd (validate_toml rt s)) = stdout s @ [''TOML error: '' @ exc_str e]"
    and "files (snd (validate_toml rt s)) = files (snd (with_open_load rt s))"
proof -
  obtain s1 where w: "with_open_load rt s = (Inl e, s1)"
    using assms(1) by (cases "with_open_load rt s") simp
  from with_open_load_frame [of rt s] w obtain fos where s1: "s1 = s\<lparr>files := files s @ fos\<rparr>"
    by auto
  with assms(3) have "can_print s1 (''TOML error: '' @ exc_str e)"
    by (simp add: can_print_def)
  from print_can [OF this] w s1 assms(2)
  show "fst (validate_toml rt s) = Completed"
    and "stdout (snd (validate_toml rt s)) = stdout s @ [''TOML error: '' @ exc_str e]"
    and "files (snd (validate_toml rt s)) = files (snd (with_open_load rt s))"
    by (simp_all add: validate_toml_by_block)
qed

lemma run_not_printed:
  assumes "fst (with_open_load rt s) = Inl e" and "isinstance e Exception"
    and "\<not> can_print s (''TOML error: '' @ exc_str e)"
  shows "\<exists>msg. stdout_encoding s (''TOML error: '' @ exc_str e) = Some msg
      \<and> fst (validate_toml rt s) = Uncaught (Exn UnicodeEncodeError msg)"
    and "stdout (snd (validate_toml rt s)) = stdout s"
    and "files (snd (validate_toml rt s)) = files (snd (with_open_load rt s))"
proof -
  obtain s1 where w: "with_open_load rt s = (Inl e, s1)"
    using assms(1) by (cases "with_open_load rt s") simp
  from with_open_load_frame [of rt s] w obtain fos where s1: "s1 = s\<lparr>files := files s @ fos\<rparr>"
    by auto
  with assms(3) have "\<not> can_print s1 (''TOML error: '' @ exc_str e)"
    by (simp add: can_print_def)
  from print_cannot [OF this] obtain msg
    where m: "stdout_encoding s1 (''TOML error: '' @ exc_str e) = Some msg"
      and p: "print (''TOML error: '' @ exc_str e) s1 = (Inl (Exn UnicodeEncodeError msg), s1)"
    by blast
  from m s1 have "stdout_encoding s (''TOML error: '' @ exc_str e) = Some msg" by simp
  moreover from p w assms(2)
  have v: "validate_toml rt s = (Uncaught (Exn UnicodeEncodeError msg), s1)"
    by (simp add: validate_toml_by_block)
  ultimately show "\<exists>msg. stdout_encoding s (''TOML error: '' @ exc_str e) = Some msg
      \<and> fst (validate_toml rt s) = Uncaught (Exn UnicodeEncodeError msg)"
    by simp
  from v s1 show "stdout (snd (validate_toml rt s)) = stdout s" by simp
  from v w show "files (snd (validate_toml rt s)) = files (snd (with_open_load rt s))" by simp
qed

lemma run_passed_on:
  assumes "fst (with_open_load rt s) = Inl e" and "\<not> isinstance e Exception"
  shows "fst (validate_toml rt s) = Uncaught e"
    and "stdout (snd (validate_toml rt s)) = stdout s"
    and "files (snd (validate_toml rt s)) = files (snd (with_open_load rt s))"
proof -
  obtain s1 where w: "with_open_load rt s = (Inl e, s1)"
    using assms(1) by (cases "with_open_load rt s") simp
  from with_open_load_frame [of rt s] w obtain fos where "s1 = s\<lparr>files := files s @ fos\<rparr>"
    by auto
  with w assms(2) show "fst (validate_toml rt s) = Uncaught e"
    and "stdout (snd (validate_toml rt s)) = stdout s"
    and "files (snd (validate_toml rt s)) = files (snd (with_open_load rt s))"
    by (simp_all add: validate_toml_by_block)
qed

lemma run_frame:
  "\<exists>fos ls. snd (validate_toml rt s) = s\<lparr>files := files s @ fos, stdout := stdout s @ ls\<rparr>
     \<and> list_all fo_closed fos"
proof -
  obtain r s1 where w: "with_open_load rt s = (r, s1)" by (cases "with_open_load rt s")
  from with_open_load_frame [of rt s] w obtain fos
    where f: "s1 = s\<lparr>files := files s @ fos\<rparr>" and c: "list_all fo_closed fos" by auto
  have p: "snd (print t s1) = s\<lparr>files := files s @ fos, stdout := stdout s @ []\<rparr>
      \<or> snd (print t s1) = s\<lparr>files := files s @ fos, stdout := stdout s @ [t]\<rparr>" for t
    using f by (auto simp: print_def split: option.splits)
  have "\<exists>ls. snd (validate_toml rt s) = s\<lparr>files := files s @ fos, stdout := stdout s @ ls\<rparr>"
  proof (cases r)
    case (Inl e)
    show ?thesis
    proof (cases "isinstance e Exception")
      case True
      with w Inl have "snd (validate_toml rt s) = snd (print (''TOML error: '' @ exc_str e) s1)"
        by (simp add: validate_toml_by_block split: prod.splits sum.splits)
      with p [of "''TOML error: '' @ exc_str e"] show ?thesis by metis
    next
      case False
      with w f Inl have "snd (validate_toml rt s) =
          s\<lparr>files := files s @ fos, stdout := stdout s @ []\<rparr>"
        by (simp add: validate_toml_by_block)
      then show ?thesis by blast
    qed
  next
    case (Inr u)
    with w f have "snd (validate_toml rt s) =
        s\<lparr>files := files s @ fos, stdout := stdout s @ [''TOML is valid'']\<rparr>"
      by (simp add: validate_toml_by_block)
    then show ?thesis by blast
  qed
  with c show ?thesis by blast
qed

text \<open>What the decoders raise for content they reject is an \<^verbatim>\<open>Exception\<close> with a text.\<close>

lemma is_ascii_digit: "d < 16 \<Longrightarrow> is_ascii [digit_char d]"
proof -
  assume "d < 16"
  then have "d \<in> {0..<16}" by simp
  then have "d \<in> set [0, 1, 2, 3, 4, 5, 6, 7, 8, 9, 10, 11, 12, 13, 14, 15]"
    by (simp add: atLeastLessThan_def lessThan_def atLeast_def) presburger
  then show ?thesis
    by (auto simp: is_ascii_def digit_char_def)
qed

lemma is_ascii_str_of_nat: "is_ascii (str_of_nat n)"
proof (induction n rule: str_of_nat.induct)
  case (1 n)
  show ?case
  proof (cases "n < 10")
    case True
    then show ?thesis by (subst str_of_nat.simps) (simp add: is_ascii_digit)
  next
    case False
    with "1" have "is_ascii (str_of_nat (n div 10))" by simp
    moreover have "is_ascii [digit_char (n mod 10)]" by (rule is_ascii_digit) simp
    ultimately show ?thesis using False by (subst str_of_nat.simps) simp
  qed
qed

lemma is_ascii_hex2: "is_ascii (hex2 b)"
proof -
  have "is_ascii [digit_char (b div 16 mod 16)]" and "is_ascii [digit_char (b mod 16)]"
    by (rule is_ascii_digit, simp)+
  then show ?thesis by (simp add: hex2_def is_ascii_def)
qed

lemma unicode_decode_error_facts:
  "exc_class (unicode_decode_error b i j r) = UnicodeDecodeError"
  "exc_str (unicode_decode_error b i j r) \<noteq> []"
  "is_ascii r \<Longrightarrow> is_ascii (exc_str (unicode_decode_error b i j r))"
  using is_ascii_hex2 [of b] is_ascii_str_of_nat [of i] is_ascii_str_of_nat [of "j - 1"]
  by (simp_all add: unicode_decode_error_def is_ascii_def)

lemma is_ascii_reasons:
  "is_ascii ''invalid start byte''" "is_ascii ''unexpected end of data''"
  "is_ascii ''invalid continuation byte''"
  by (simp_all add: is_ascii_def)

lemma emit_Inl: "emit cp r = Inl e \<Longrightarrow> r = Inl e"
  by (simp add: emit_def split: sum.splits)

lemma utf8_decode_error:
  "utf8_decode i bs = Inl e \<Longrightarrow>
     exc_class e = UnicodeDecodeError \<and> exc_str e \<noteq> [] \<and> is_ascii (exc_str e)"
proof (induction i bs rule: utf8_decode.induct)
  case (1 i)
  then show ?case by simp
next
  case (2 i ch bs)
  from "2.prems" show ?case
    apply (simp split: if_splits list.splits)
    apply (auto dest!: emit_Inl simp: unicode_decode_error_facts is_ascii_reasons "2.IH")
    done
qed

lemma bytes_decode_error:
  "bytes_decode b = Inl e \<Longrightarrow>
     exc_class e = UnicodeDecodeError \<and> exc_str e \<noteq> [] \<and> is_ascii (exc_str e)"
  unfolding bytes_decode_def by (rule utf8_decode_error)



lemma decode_document_empty: "decode_document rt [] = Inr (new_output rt)"
  by (simp add: decode_document_def bytes_decode_def loads_def statements.simps
      skip_chars.simps)




text \<open>The definitions a concrete run is evaluated with.\<close>

lemmas run_eval =
  decode_document_def bytes_decode_def loads_def statements.simps skip_chars.simps
  statement_def after_rule_def skip_comment_def skip_until_def emit_def
  rules_of_def to_end_of_line_def unterminated_def interrupted_def duplicate_key_def
  out_of_memory_def
  TOML_WS_def KEY_INITIAL_CHARS_def BARE_KEY_CHARS_def ILLEGAL_COMMENT_CHARS_def
  ASCII_CTRL_def suffixed_err_def coord_repr_def unicode_decode_error_def hex2_def
  digit_char_def str_of_nat.simps os_error_str_def repr_str_def repr_char_def
  toml_path_def unterminated_toml_def duplicate_key_toml_def is_continuation_byte_def
  Let_def

lemma fs_world_with: "fs (world_with c) toml_path = Some (RegularFile c 0 True)"
  by (simp add: world_with_def)



lemma fs_world_without: "fs world_without toml_path = None"
  by (simp add: world_without_def)

lemma fs_world_faulty: "fs world_faulty toml_path = Some (FaultyFile 0)"
  by (simp add: world_faulty_def)



lemma obstacle_world_without: "obstacle (fs world_without) toml_path = None"
  by (simp add: obstacle_def world_without_def toml_path_def)



lemma stdout_world_with: "stdout (world_with c) = []"
  by (simp add: world_with_def)


lemma stdout_world_without: "stdout world_without = []"
  by (simp add: world_without_def)



lemma stdout_world_faulty: "stdout world_faulty = []"
  by (simp add: world_faulty_def)

lemma new_process_world_with: "new_process (world_with c) = world_with c"
  by (simp add: new_process_def world_with_def)

lemma decode_one_pair: "decode_document (rules_of to_end_of_line) ''a = 1'' = Inr ()"
  by (simp add: run_eval)

lemma decode_unterminated:
  "decode_document (rules_of unterminated) unterminated_toml =
     Inl (Exn TOMLDecodeError ''Unterminated string (at end of document)'')"
  by (simp add: run_eval)


lemma decode_duplicate_key:
  "decode_document (rules_of duplicate_key) duplicate_key_toml =
     Inl (Exn TOMLDecodeError
       (''Duplicate inline table key '' @ [CHR 0x27, CHR 0xC3, CHR 0xA9, CHR 0x27] @
        '' (at line 1, column 22)''))"
  by (simp add: run_eval)




lemma decode_not_utf8:
  "bytes_decode [CHR 0xFF] =
     Inl (Exn UnicodeDecodeError
       ([CHR 0x27] @ ''utf-8'' @ [CHR 0x27] @ '' codec can'' @ [CHR 0x27] @
        ''t decode byte 0xff in position 0: invalid start byte''))"
  by (simp add: run_eval)

lemma missing_file_str:
  "os_error_str 2 ''No such file or directory'' toml_path =
     ''[Errno 2] No such file or directory: '' @ [CHR 0x27] @
     ''.gemini/commands/refactor/surgical.toml'' @ [CHR 0x27]"
  by (simp add: run_eval)




lemma ascii_refuses_duplicate_key:
  "ascii_stdout (''TOML error: '' @ ''Duplicate inline table key '' @
       [CHR 0x27, CHR 0xC3, CHR 0xA9, CHR 0x27] @ '' (at line 1, column 22)'') =
     Some ([CHR 0x27] @ ''ascii'' @ [CHR 0x27] @ '' codec can'' @ [CHR 0x27] @
       ''t encode character '' @ [CHR 0x27, CHR 0x5C] @ ''xe9'' @ [CHR 0x27] @
       '' in position 40: ordinal not in range(128)'')"
  by (simp add: ascii_stdout_def ascii_encode_error_def escaped_char_def run_eval)



lemma block_unterminated:
  "fst (with_open_load (rules_of unterminated) (world_with unterminated_toml)) =
     Inl (Exn TOMLDecodeError ''Unterminated string (at end of document)'')"
  by (simp add: with_open_load_readable [OF fs_world_with] decode_unterminated)


lemma block_duplicate_key:
  "fst (with_open_load (rules_of duplicate_key) (world_with duplicate_key_toml)) =
     Inl (Exn TOMLDecodeError
       (''Duplicate inline table key '' @ [CHR 0x27, CHR 0xC3, CHR 0xA9, CHR 0x27] @
        '' (at line 1, column 22)''))"
  by (simp add: with_open_load_readable [OF fs_world_with] decode_duplicate_key)


lemma cannot_print_duplicate_key:
  "\<not> can_print (world_with c)
     (''TOML error: '' @ ''Duplicate inline table key '' @
      [CHR 0x27, CHR 0xC3, CHR 0xA9, CHR 0x27] @ '' (at line 1, column 22)'')"
  using ascii_refuses_duplicate_key
  by (simp add: can_print_def world_with_def is_ascii_def)

text \<open>The run that an ASCII standard output ends: the error line cannot be encoded.\<close>

lemma run_duplicate_key:
  "fst (validate_toml (rules_of duplicate_key) (world_with duplicate_key_toml)) =
     Uncaught (Exn UnicodeEncodeError
       ([CHR 0x27] @ ''ascii'' @ [CHR 0x27] @ '' codec can'' @ [CHR 0x27] @
        ''t encode character '' @ [CHR 0x27, CHR 0x5C] @ ''xe9'' @ [CHR 0x27] @
        '' in position 40: ordinal not in range(128)''))"
  "stdout (snd (validate_toml (rules_of duplicate_key) (world_with duplicate_key_toml))) = []"
proof -
  have i: "isinstance (Exn TOMLDecodeError
       (''Duplicate inline table key '' @ [CHR 0x27, CHR 0xC3, CHR 0xA9, CHR 0x27] @
        '' (at line 1, column 22)'')) Exception"
    by (simp add: isinstance_def)
  have n: "\<not> can_print (world_with duplicate_key_toml)
     (''TOML error: '' @ exc_str (Exn TOMLDecodeError
       (''Duplicate inline table key '' @ [CHR 0x27, CHR 0xC3, CHR 0xA9, CHR 0x27] @
        '' (at line 1, column 22)'')))"
    using cannot_print_duplicate_key [of duplicate_key_toml] by simp
  from run_not_printed (1) [OF block_duplicate_key i n]
  show "fst (validate_toml (rules_of duplicate_key) (world_with duplicate_key_toml)) =
     Uncaught (Exn UnicodeEncodeError
       ([CHR 0x27] @ ''ascii'' @ [CHR 0x27] @ '' codec can'' @ [CHR 0x27] @
        ''t encode character '' @ [CHR 0x27, CHR 0x5C] @ ''xe9'' @ [CHR 0x27] @
        '' in position 40: ordinal not in range(128)''))"
    using ascii_refuses_duplicate_key by (auto simp: world_with_def)
  from run_not_printed (2) [OF block_duplicate_key i n]
  show "stdout (snd (validate_toml (rules_of duplicate_key) (world_with duplicate_key_toml))) = []"
    by (simp add: stdout_world_with)
qed



lemma run_unterminated:
  "fst (validate_toml (rules_of unterminated) (world_with unterminated_toml)) = Completed"
  "stdout (snd (validate_toml (rules_of unterminated) (world_with unterminated_toml))) =
     [''TOML error: Unterminated string (at end of document)'']"
proof -
  have i: "isinstance (Exn TOMLDecodeError ''Unterminated string (at end of document)'')
      Exception"
    by (simp add: isinstance_def)
  have c: "can_print (world_with unterminated_toml)
      (''TOML error: '' @
       exc_str (Exn TOMLDecodeError ''Unterminated string (at end of document)''))"
    by (simp add: can_print_def is_ascii_def)
  from run_printed (1) [OF block_unterminated i c]
  show "fst (validate_toml (rules_of unterminated) (world_with unterminated_toml)) = Completed" .
  from run_printed (2) [OF block_unterminated i c]
  show "stdout (snd (validate_toml (rules_of unterminated) (world_with unterminated_toml))) =
     [''TOML error: Unterminated string (at end of document)'']"
    by (simp add: stdout_world_with)
qed

subsection \<open>The claims\<close>

text \<open>
  C1.  Whenever the file at the fixed path exists, is readable and its contents decode as
  valid TOML, the run prints exactly the line \<^verbatim>\<open>TOML is valid\<close> and the process ends
  with status 0.
\<close>

theorem valid_file_prints_valid:
  assumes "fs s toml_path = Some (RegularFile c m True)"
    and "decode_document rt c = Inr doc"
  shows "stdout (snd (validate_toml rt s)) = stdout s @ [''TOML is valid'']
    \<and> fst (validate_toml rt s) = Completed
    \<and> exit_status (fst (validate_toml rt s)) = Some 0"
proof -
  from assms have "fst (with_open_load rt s) = Inr ()"
    by (simp add: with_open_load_readable)
  from run_returned (1, 2) [OF this] show ?thesis by simp
qed

theorem valid_file_prints_valid_witness:
  "fs (world_with ''a = 1'') toml_path = Some (RegularFile ''a = 1'' 0 True)
   \<and> decode_document (rules_of to_end_of_line) ''a = 1'' = Inr ()
   \<and> stdout (snd (validate_toml (rules_of to_end_of_line) (world_with ''a = 1''))) =
       [''TOML is valid'']
   \<and> fst (validate_toml (rules_of to_end_of_line) (world_with ''a = 1'')) = Completed
   \<and> exit_status (fst (validate_toml (rules_of to_end_of_line) (world_with ''a = 1''))) =
       Some 0"
  using valid_file_prints_valid [OF fs_world_with decode_one_pair]
    fs_world_with [of "''a = 1''"] decode_one_pair stdout_world_with [of "''a = 1''"]
  by simp

text \<open>
  C2.  The claim reads: whenever opening or reading the file fails or decoding its
  contents fails, the failure is caught, printed as \<^verbatim>\<open>TOML error: <message>\<close>, and the
  process ends with status 0, never abnormally.  It fails when the message cannot be
  written: the document \<^verbatim>\<open>a = {"e" = 1, "e" = 2}\<close>, with an acute accent on each
  \<^verbatim>\<open>e\<close>, is rejected with a \<^verbatim>\<open>TOMLDecodeError\<close> whose message holds the key; on an
  ASCII standard output the handler's \<^verbatim>\<open>print\<close> raises \<^verbatim>\<open>UnicodeEncodeError\<close> outside
  any \<^verbatim>\<open>try\<close>, nothing is printed and the process ends with status 1.
\<close>

theorem failure_not_reported:
  "fs (world_with duplicate_key_toml) toml_path = Some (RegularFile duplicate_key_toml 0 True)
   \<and> decode_document (rules_of duplicate_key) duplicate_key_toml =
       Inl (Exn TOMLDecodeError
         (''Duplicate inline table key '' @ [CHR 0x27, CHR 0xC3, CHR 0xA9, CHR 0x27] @
          '' (at line 1, column 22)''))
   \<and> fst (validate_toml (rules_of duplicate_key) (world_with duplicate_key_toml)) =
       Uncaught (Exn UnicodeEncodeError
         ([CHR 0x27] @ ''ascii'' @ [CHR 0x27] @ '' codec can'' @ [CHR 0x27] @
          ''t encode character '' @ [CHR 0x27, CHR 0x5C] @ ''xe9'' @ [CHR 0x27] @
          '' in position 40: ordinal not in range(128)''))
   \<and> stdout (snd (validate_toml (rules_of duplicate_key) (world_with duplicate_key_toml))) = []
   \<and> exit_status (fst (validate_toml (rules_of duplicate_key) (world_with duplicate_key_toml))) =
       Some 1"
  using fs_world_with [of duplicate_key_toml] decode_duplicate_key
  by (simp add: run_duplicate_key)

text \<open>
  C2, amended.  Whenever opening or reading the file fails or decoding its contents
  fails with an exception of the \<^verbatim>\<open>Exception\<close> subtree, and the line
  \<^verbatim>\<open>TOML error: <message>\<close> can be represented in the encoding of standard output, the
  exception is caught, that line is printed with the message of that exception, and the
  process ends with status 0.
\<close>

theorem failures_are_reported:
  assumes "(\<exists>s1. open_rb s toml_path = (Inl e, s1))
    \<or> (\<exists>f s1 s2. open_rb s toml_path = (Inr f, s1) \<and> load rt s1 f = (Inl e, s2))"
    and "isinstance e Exception"
    and "can_print s (''TOML error: '' @ exc_str e)"
  shows "stdout (snd (validate_toml rt s)) = stdout s @ [''TOML error: '' @ exc_str e]
    \<and> fst (validate_toml rt s) = Completed
    \<and> exit_status (fst (validate_toml rt s)) = Some 0"
proof -
  from assms(1) have "fst (with_open_load rt s) = Inl e"
    by (auto simp: with_open_load_def)
  from run_printed (1, 2) [OF this assms(2, 3)] show ?thesis by simp
qed

theorem failures_are_reported_witness:
  "open_rb world_without toml_path =
     (Inl (Exn FileNotFoundError
        (''[Errno 2] No such file or directory: '' @ [CHR 0x27] @
         ''.gemini/commands/refactor/surgical.toml'' @ [CHR 0x27])), world_without)
   \<and> stdout (snd (validate_toml (rules_of unterminated) world_without)) =
       [''TOML error: [Errno 2] No such file or directory: '' @ [CHR 0x27] @
        ''.gemini/commands/refactor/surgical.toml'' @ [CHR 0x27]]
   \<and> fst (validate_toml (rules_of unterminated) world_without) = Completed
   \<and> open_rb world_faulty toml_path =
       (Inr 0, world_faulty\<lparr>files := [\<lparr>fo_path = toml_path, fo_pos = 0, fo_closed = False\<rparr>]\<rparr>)
   \<and> fst (load (rules_of unterminated)
        (world_faulty\<lparr>files := [\<lparr>fo_path = toml_path, fo_pos = 0, fo_closed = False\<rparr>]\<rparr>) 0) =
       Inl (Exn OSError ''[Errno 5] Input/output error'')
   \<and> stdout (snd (validate_toml (rules_of unterminated) world_faulty)) =
       [''TOML error: [Errno 5] Input/output error'']
   \<and> fst (validate_toml (rules_of unterminated) world_faulty) = Completed
   \<and> open_rb (world_with unterminated_toml) toml_path =
       (Inr 0, (world_with unterminated_toml)
          \<lparr>files := [\<lparr>fo_path = toml_path, fo_pos = 0, fo_closed = False\<rparr>]\<rparr>)
   \<and> fst (load (rules_of unterminated)
        ((world_with unterminated_toml)
           \<lparr>files := [\<lparr>fo_path = toml_path, fo_pos = 0, fo_closed = False\<rparr>]\<rparr>) 0) =
       Inl (Exn TOMLDecodeError ''Unterminated string (at end of document)'')
   \<and> stdout (snd (validate_toml (rules_of unterminated) (world_with unterminated_toml))) =
       [''TOML error: Unterminated string (at end of document)'']
   \<and> fst (validate_toml (rules_of unterminated) (world_with unterminated_toml)) = Completed"
proof -
  let ?R = "rules_of unterminated"
  let ?opened = "\<lambda>w :: state. w\<lparr>files := [\<lparr>fo_path = toml_path, fo_pos = 0, fo_closed = False\<rparr>]\<rparr>"
  let ?e1 = "Exn FileNotFoundError
        (''[Errno 2] No such file or directory: '' @ [CHR 0x27] @
         ''.gemini/commands/refactor/surgical.toml'' @ [CHR 0x27])"
  let ?e2 = "Exn OSError ''[Errno 5] Input/output error''"
  let ?e3 = "Exn TOMLDecodeError ''Unterminated string (at end of document)''"
  have o1: "open_rb world_without toml_path = (Inl ?e1, world_without)"
    using fs_world_without obstacle_world_without
    by (simp add: open_rb_def missing_error_def missing_file_str)
  have o2: "open_rb world_faulty toml_path = (Inr 0, ?opened world_faulty)"
    by (simp add: open_rb_def world_faulty_def)
  have l2: "load ?R (?opened world_faulty) 0 = (Inl ?e2, ?opened world_faulty)"
    by (simp add: load_def file_read_def world_faulty_def)
  have o3: "open_rb (world_with unterminated_toml) toml_path =
      (Inr 0, ?opened (world_with unterminated_toml))"
    by (simp add: open_rb_def world_with_def)
  have l3: "fst (load ?R (?opened (world_with unterminated_toml)) 0) = Inl ?e3"
    using decode_unterminated by (simp add: load_def file_read_def world_with_def)
  have h1: "(\<exists>s1. open_rb world_without toml_path = (Inl ?e1, s1))
    \<or> (\<exists>f s1 s2. open_rb world_without toml_path = (Inr f, s1) \<and> load ?R s1 f = (Inl ?e1, s2))"
    using o1 by blast
  have h2: "(\<exists>s1. open_rb world_faulty toml_path = (Inl ?e2, s1))
    \<or> (\<exists>f s1 s2. open_rb world_faulty toml_path = (Inr f, s1) \<and> load ?R s1 f = (Inl ?e2, s2))"
    using o2 l2 by blast
  have h3: "(\<exists>s1. open_rb (world_with unterminated_toml) toml_path = (Inl ?e3, s1))
    \<or> (\<exists>f s1 s2. open_rb (world_with unterminated_toml) toml_path = (Inr f, s1)
          \<and> load ?R s1 f = (Inl ?e3, s2))"
    using o3 l3 by (metis prod.collapse)
  have i: "isinstance ?e1 Exception" "isinstance ?e2 Exception" "isinstance ?e3 Exception"
    by (simp_all add: isinstance_def)
  have c: "can_print world_without (''TOML error: '' @ exc_str ?e1)"
    "can_print world_faulty (''TOML error: '' @ exc_str ?e2)"
    "can_print (world_with unterminated_toml) (''TOML error: '' @ exc_str ?e3)"
    by (simp_all add: can_print_def is_ascii_def)
  from failures_are_reported [OF h1 i(1) c(1)] failures_are_reported [OF h2 i(2) c(2)]
    failures_are_reported [OF h3 i(3) c(3)]
  show ?thesis
    using o1 o2 l2 o3 l3
    by (simp add: stdout_world_without stdout_world_faulty stdout_world_with)
qed







text \<open>
  C5.  An empty file (zero bytes) at the fixed path is valid TOML: the parser reaches the
  end of the text before any statement, and the document is the fresh, empty output.  On
  such a file the run prints \<^verbatim>\<open>TOML is valid\<close>.
\<close>

theorem empty_file_is_valid:
  assumes "fs s toml_path = Some (RegularFile [] m True)"
  shows "decode_document rt [] = Inr (new_output rt)
    \<and> stdout (snd (validate_toml rt s)) = stdout s @ [''TOML is valid'']
    \<and> fst (validate_toml rt s) = Completed"
proof -
  from assms have "fst (with_open_load rt s) = Inr ()"
    by (simp add: with_open_load_readable decode_document_empty)
  from run_returned (1, 2) [OF this] show ?thesis by (simp add: decode_document_empty)
qed

theorem empty_file_is_valid_witness:
  "fs (world_with []) toml_path = Some (RegularFile [] 0 True)
   \<and> stdout (snd (validate_toml (rules_of unterminated) (world_with []))) =
       [''TOML is valid'']
   \<and> fst (validate_toml (rules_of unterminated) (world_with [])) = Completed"
  using empty_file_is_valid [OF fs_world_with, of "rules_of unterminated"]
    fs_world_with [of "[]"] stdout_world_with [of "[]"]
  by simp




text \<open>
  C7.  Whatever the outcome, a run writes nothing: the file system is as before (so the
  input file keeps its contents and its modification time), and so is everything of the
  state but the process's own file objects and standard output; the only lasting effect
  is the output.
\<close>

theorem run_writes_nothing:
  "fs (snd (validate_toml rt s)) = fs s
   \<and> fs (snd (validate_toml rt s)) toml_path = fs s toml_path
   \<and> state.more (snd (validate_toml rt s)) = state.more s
   \<and> (\<exists>fos ls. snd (validate_toml rt s) =
         s\<lparr>files := files s @ fos, stdout := stdout s @ ls\<rparr>)"
proof -
  from run_frame [of rt s] obtain fos ls
    where "snd (validate_toml rt s) = s\<lparr>files := files s @ fos, stdout := stdout s @ ls\<rparr>"
    by blast
  then show ?thesis by auto
qed

text \<open>
  C8.  Whenever \<^verbatim>\<open>open\<close> returned a file object, that file object is closed when the run
  ends, on every path: after a successful decode, after a decoding error that is printed,
  and after an exception that leaves the script uncaught.
\<close>

theorem file_is_closed:
  assumes "open_rb s toml_path = (Inr f, s1)"
  shows "\<not> fo_closed (files s1 ! f)
    \<and> f < length (files (snd (validate_toml rt s)))
    \<and> fo_closed (files (snd (validate_toml rt s)) ! f)"
proof -
  from assms have f: "f = length (files s)"
    and s1: "s1 = s\<lparr>files := files s @ [\<lparr>fo_path = toml_path, fo_pos = 0, fo_closed = False\<rparr>]\<rparr>"
    by (auto simp: open_rb_def split: option.splits entry.splits if_splits)
  from assms consider c m where "fs s toml_path = Some (RegularFile c m True)"
    | m where "fs s toml_path = Some (FaultyFile m)"
    by (auto simp: open_rb_def split: option.splits entry.splits if_splits)
  then obtain c where b: "files (snd (with_open_load rt s)) = files s @ [closed_file c]"
  proof cases
    case 1
    then have "files (snd (with_open_load rt s)) = files s @ [closed_file c]"
      by (simp add: with_open_load_readable)
    then show ?thesis by (rule that)
  next
    case 2
    then have "files (snd (with_open_load rt s)) = files s @ [closed_file []]"
      by (simp add: with_open_load_faulty)
    then show ?thesis by (rule that)
  qed
  have "files (snd (validate_toml rt s)) = files (snd (with_open_load rt s))"
  proof (cases "fst (with_open_load rt s)")
    case (Inr u)
    from run_returned (3) [OF Inr] show ?thesis .
  next
    case (Inl e)
    show ?thesis
    proof (cases "isinstance e Exception")
      case True
      show ?thesis
      proof (cases "can_print s (''TOML error: '' @ exc_str e)")
        case yes: True
        from run_printed (3) [OF Inl True yes] show ?thesis .
      next
        case no: False
        from run_not_printed (3) [OF Inl True no] show ?thesis .
      qed
    next
      case False
      from run_passed_on (3) [OF Inl False] show ?thesis .
    qed
  qed
  with b f s1 show ?thesis by (simp add: closed_file_def)
qed

theorem file_is_closed_witness:
  "open_rb (world_with unterminated_toml) toml_path =
     (Inr 0, (world_with unterminated_toml)
        \<lparr>files := [\<lparr>fo_path = toml_path, fo_pos = 0, fo_closed = False\<rparr>]\<rparr>)
   \<and> fst (validate_toml (rules_of unterminated) (world_with unterminated_toml)) = Completed
   \<and> fo_closed (files (snd (validate_toml (rules_of unterminated)
        (world_with unterminated_toml))) ! 0)
   \<and> fst (validate_toml (rules_of interrupted) (world_with unterminated_toml)) =
       Uncaught (Exn KeyboardInterrupt [])
   \<and> fo_closed (files (snd (validate_toml (rules_of interrupted)
        (world_with unterminated_toml))) ! 0)"
proof -
  have o: "open_rb (world_with unterminated_toml) toml_path =
     (Inr 0, (world_with unterminated_toml)
        \<lparr>files := [\<lparr>fo_path = toml_path, fo_pos = 0, fo_closed = False\<rparr>]\<rparr>)"
    by (simp add: open_rb_def world_with_def)
  have "decode_document (rules_of interrupted) unterminated_toml =
      Inl (Exn KeyboardInterrupt [])"
    by (simp add: run_eval)
  then have "fst (with_open_load (rules_of interrupted) (world_with unterminated_toml)) =
      Inl (Exn KeyboardInterrupt [])"
    by (simp add: with_open_load_readable [OF fs_world_with])
  from run_passed_on (1) [OF this]
  have u: "fst (validate_toml (rules_of interrupted) (world_with unterminated_toml)) =
      Uncaught (Exn KeyboardInterrupt [])"
    by (simp add: isinstance_def)
  from file_is_closed [OF o, of "rules_of unterminated"]
    file_is_closed [OF o, of "rules_of interrupted"]
  show ?thesis using o u by (simp add: run_unterminated)
qed

text \<open>
  C9.  If the file exists and is readable but its bytes are not valid UTF-8, decoding
  raises \<^verbatim>\<open>UnicodeDecodeError\<close>, an instance of \<^verbatim>\<open>Exception\<close>: it is caught like any
  other failure, printed as \<^verbatim>\<open>TOML error: <message>\<close>, and the process ends with status 0.
\<close>

theorem not_utf8_is_reported:
  assumes "fs s toml_path = Some (RegularFile c m True)"
    and "bytes_decode c = Inl e"
  shows "exc_class e = UnicodeDecodeError
    \<and> isinstance e Exception
    \<and> stdout (snd (validate_toml rt s)) = stdout s @ [''TOML error: '' @ exc_str e]
    \<and> fst (validate_toml rt s) = Completed
    \<and> exit_status (fst (validate_toml rt s)) = Some 0"
proof -
  from bytes_decode_error [OF assms(2)] have c: "exc_class e = UnicodeDecodeError"
    and a: "is_ascii (exc_str e)" by simp_all
  from c have i: "isinstance e Exception" by (simp add: isinstance_def)
  from a have p: "can_print s (''TOML error: '' @ exc_str e)"
    by (simp add: can_print_def is_ascii_def)
  from assms have "fst (with_open_load rt s) = Inl e"
    by (simp add: with_open_load_readable decode_document_def)
  from run_printed (1, 2) [OF this i p] c i show ?thesis by simp
qed

theorem not_utf8_is_reported_witness:
  "fs (world_with [CHR 0xFF]) toml_path = Some (RegularFile [CHR 0xFF] 0 True)
   \<and> stdout (snd (validate_toml (rules_of to_end_of_line) (world_with [CHR 0xFF]))) =
       [''TOML error: '' @ [CHR 0x27] @ ''utf-8'' @ [CHR 0x27] @ '' codec can'' @ [CHR 0x27] @
        ''t decode byte 0xff in position 0: invalid start byte'']
   \<and> fst (validate_toml (rules_of to_end_of_line) (world_with [CHR 0xFF])) = Completed"
  using not_utf8_is_reported [OF fs_world_with decode_not_utf8, of "rules_of to_end_of_line"]
    fs_world_with [of "[CHR 0xFF]"] stdout_world_with [of "[CHR 0xFF]"]
  by simp




end
